theory Spec2Isabelle
  imports Complex_Main "HOL-Library.Sublist"
begin

section \<open>Python strings\<close>

text \<open>
  A Python \<^verbatim>\<open>str\<close> is modelled as a \<^typ>\<open>string\<close>. The model is exact for ASCII
  text: one \<^typ>\<open>char\<close> per character, \<open>str_lower\<close> maps \<open>A\<close>..\<open>Z\<close> only and
  \<open>str_strip\<close> removes the ASCII characters that \<^verbatim>\<open>str.isspace\<close> accepts. A character
  beyond ASCII stands as its UTF-8 bytes.
\<close>

definition is_space :: "char \<Rightarrow> bool" where
  "is_space c = (c = CHR 0x09 \<or> c = CHR 0x0A \<or> c = CHR 0x0B \<or> c = CHR 0x0C \<or> c = CHR 0x0D
     \<or> c = CHR 0x1C \<or> c = CHR 0x1D \<or> c = CHR 0x1E \<or> c = CHR 0x1F \<or> c = CHR 0x20)"

text \<open>\<^verbatim>\<open>s.strip()\<close>\<close>

definition str_strip :: "string \<Rightarrow> string" where
  "str_strip s = rev (dropWhile is_space (rev (dropWhile is_space s)))"

definition lower_char :: "char \<Rightarrow> char" where
  "lower_char c =
     (let n = (of_char c :: nat) in if 65 \<le> n \<and> n \<le> 90 then char_of (n + 32) else c)"

text \<open>\<^verbatim>\<open>s.lower()\<close>\<close>

definition str_lower :: "string \<Rightarrow> string" where
  "str_lower s = map lower_char s"

text \<open>\<^verbatim>\<open>sub in s\<close>\<close>

fun str_in :: "string \<Rightarrow> string \<Rightarrow> bool" where
  "str_in sub [] = (sub = [])"
| "str_in sub (c # cs) = (prefix sub (c # cs) \<or> str_in sub cs)"

text \<open>
  \<^verbatim>\<open>s.find(sub, start)\<close> for \<open>0 \<le> start\<close>: the lowest index at or after \<open>start\<close> where
  \<open>sub\<close> occurs, \<open>-1\<close> when there is none. \<open>find_from sub s i\<close> searches the remainder
  \<open>s\<close> of the text, whose first character has index \<open>i\<close>.
\<close>

fun find_from :: "string \<Rightarrow> string \<Rightarrow> nat \<Rightarrow> int" where
  "find_from sub [] i = (if sub = [] then int i else - 1)"
| "find_from sub (c # cs) i = (if prefix sub (c # cs) then int i else find_from sub cs (Suc i))"

definition str_find :: "string \<Rightarrow> string \<Rightarrow> nat \<Rightarrow> int" where
  "str_find s sub start = (if length s < start then - 1 else find_from sub (drop start s) start)"

text \<open>\<^verbatim>\<open>s[a:b]\<close> for \<open>0 \<le> a\<close> and \<open>0 \<le> b\<close>, the only way the program slices.\<close>

definition str_slice :: "string \<Rightarrow> int \<Rightarrow> int \<Rightarrow> string" where
  "str_slice s a b = take (nat b - nat a) (drop (nat a) s)"

text \<open>\<^verbatim>\<open>s.split('\n')\<close>: the pieces between newlines, never an empty list.\<close>

fun split_lines :: "string \<Rightarrow> string list" where
  "split_lines [] = [[]]"
| "split_lines (c # cs) =
     (if c = CHR 0x0A then [] # split_lines cs
      else (case split_lines cs of l # ls \<Rightarrow> (c # l) # ls | [] \<Rightarrow> [[c]]))"

text \<open>\<^verbatim>\<open>line.split(":", 1)[1]\<close>, read only when \<^verbatim>\<open>":" in line\<close>.\<close>

definition after_colon :: "string \<Rightarrow> string" where
  "after_colon line = drop 1 (dropWhile (\<lambda>c. c \<noteq> CHR '':'') line)"

text \<open>\<^verbatim>\<open>"\n".join(xs)\<close>\<close>

fun join_lines :: "string list \<Rightarrow> string" where
  "join_lines [] = []"
| "join_lines [x] = x"
| "join_lines (x # y # ys) = x @ [CHR 0x0A] @ join_lines (y # ys)"

section \<open>Python values and exceptions\<close>

text \<open>
  The values \<^verbatim>\<open>json.loads\<close> yields: \<^verbatim>\<open>None\<close>, booleans, integers, finite floats (by
  their value), strings, lists, and dicts with string keys in insertion order.
\<close>

datatype json =
    JNull
  | JBool bool
  | JInt int
  | JFloat rat
  | JStr string
  | JList "json list"
  | JObj "(string \<times> json) list"

text \<open>
  The exceptions the program can meet. \<open>OtherException\<close> stands for any further subclass
  of \<^verbatim>\<open>Exception\<close> that the service client or the decoder raises, named by a tag.
\<close>

datatype exn =
    JSONDecodeError
  | AttributeError
  | TypeError
  | KeyError
  | OtherException string

text \<open>Truth value of a Python value, as \<^verbatim>\<open>if v:\<close> tests it.\<close>

fun truthy :: "json \<Rightarrow> bool" where
  "truthy JNull = False"
| "truthy (JBool b) = b"
| "truthy (JInt i) = (i \<noteq> 0)"
| "truthy (JFloat r) = (r \<noteq> 0)"
| "truthy (JStr s) = (s \<noteq> [])"
| "truthy (JList xs) = (xs \<noteq> [])"
| "truthy (JObj kvs) = (kvs \<noteq> [])"

text \<open>\<^verbatim>\<open>d.get(k, default)\<close>: only a dict has the method.\<close>

fun dict_get :: "json \<Rightarrow> string \<Rightarrow> json \<Rightarrow> exn + json" where
  "dict_get (JObj kvs) k dflt = Inr (case map_of kvs k of Some v \<Rightarrow> v | None \<Rightarrow> dflt)"
| "dict_get _ k dflt = Inl AttributeError"

text \<open>\<^verbatim>\<open>k in v\<close> for a string \<open>k\<close>: key test, substring test or membership test.\<close>

fun key_in :: "string \<Rightarrow> json \<Rightarrow> exn + bool" where
  "key_in k (JObj kvs) = Inr (map_of kvs k \<noteq> None)"
| "key_in k (JStr s) = Inr (str_in k s)"
| "key_in k (JList xs) = Inr (List.member xs (JStr k))"
| "key_in k _ = Inl TypeError"

text \<open>The elements a \<^verbatim>\<open>for\<close> loop or a comprehension draws from a value.\<close>

fun iterate :: "json \<Rightarrow> exn + json list" where
  "iterate (JList xs) = Inr xs"
| "iterate (JStr s) = Inr (map (\<lambda>c. JStr [c]) s)"
| "iterate (JObj kvs) = Inr (map (\<lambda>kv. JStr (fst kv)) kvs)"
| "iterate _ = Inl TypeError"

text \<open>\<^verbatim>\<open>v[0]\<close>, evaluated by the caller only when \<open>v\<close> is truthy.\<close>

fun first_item :: "json \<Rightarrow> exn + json" where
  "first_item (JList (x # xs)) = Inr x"
| "first_item (JStr (c # cs)) = Inr (JStr [c])"
| "first_item (JObj kvs) = Inl KeyError"
| "first_item _ = Inl TypeError"

text \<open>Lists and dicts cannot be dict keys.\<close>

fun hashable :: "json \<Rightarrow> bool" where
  "hashable (JList xs) = False"
| "hashable (JObj kvs) = False"
| "hashable _ = True"

text \<open>The number a numeric key stands for; booleans are the integers 0 and 1.\<close>

fun numeric :: "json \<Rightarrow> rat option" where
  "numeric (JBool b) = Some (if b then 1 else 0)"
| "numeric (JInt i) = Some (of_int i)"
| "numeric (JFloat r) = Some r"
| "numeric _ = None"

text \<open>Equality of two hashable keys: numbers by value, anything else by structure.\<close>

definition key_eq :: "json \<Rightarrow> json \<Rightarrow> bool" where
  "key_eq a b = (case (numeric a, numeric b) of (Some x, Some y) \<Rightarrow> x = y | _ \<Rightarrow> a = b)"

text \<open>\<^verbatim>\<open>d[k] = v\<close> on a dict kept in insertion order.\<close>

fun dict_set :: "(json \<times> string) list \<Rightarrow> json \<Rightarrow> string \<Rightarrow> (json \<times> string) list" where
  "dict_set [] k v = [(k, v)]"
| "dict_set ((k', v') # d) k v = (if key_eq k' k then (k', v) # d else (k', v') # dict_set d k v)"

section \<open>The service and the interpreter\<close>

text \<open>
  The request handed to \<^verbatim>\<open>invoke_model\<close>: the model id and the fields of the JSON body.
  \<open>system\<close> is \<open>None\<close> when the body has no such key.
\<close>

record call =
  modelId :: string
  anthropic_version :: string
  max_tokens :: int
  temperature :: rat
  system :: "string option"
  messages :: "(string \<times> string) list"

text \<open>
  What \<^verbatim>\<open>json.loads(response['body'].read())\<close> gives after the call: the decoded body,
  or the exception raised by the call, by reading the body or by decoding it.
\<close>

datatype outcome = Raises exn | Body json

text \<open>The object \<^verbatim>\<open>self\<close>: the client and the attributes set by the constructor.\<close>

record pilot =
  bedrock :: "call \<Rightarrow> outcome"
  model_id :: string
  intent_system_prompt :: string
  optimization_system_prompt :: string

text \<open>
  What the program takes from the interpreter and its library: \<^verbatim>\<open>json.loads\<close> on a
  text, \<^verbatim>\<open>str(v)\<close> of a value that is not a string, and \<^verbatim>\<open>str(e)\<close> of an exception.
\<close>

record runtime =
  json_loads :: "string \<Rightarrow> exn + json"
  value_text :: "json \<Rightarrow> string"
  exn_text :: "exn \<Rightarrow> string"

text \<open>A value inside an f-string.\<close>

fun format_value :: "runtime \<Rightarrow> json \<Rightarrow> string" where
  "format_value lib (JStr s) = s"
| "format_value lib v = value_text lib v"

text \<open>\<^verbatim>\<open>response_body.get('content', [])\<close>\<close>

definition response_content :: "json \<Rightarrow> exn + json" where
  "response_content response_body = dict_get response_body ''content'' (JList [])"

text \<open>\<^verbatim>\<open>content and isinstance(content, list) and 'text' in content[0]\<close>\<close>

fun has_text :: "json \<Rightarrow> exn + bool" where
  "has_text (JList (x # xs)) = key_in ''text'' x"
| "has_text _ = Inr False"

text \<open>\<^verbatim>\<open>content[0]['text']\<close>, read after \<open>has_text\<close> held.\<close>

fun first_text :: "json \<Rightarrow> exn + json" where
  "first_text (JList (JObj kvs # xs)) =
     (case map_of kvs ''text'' of Some v \<Rightarrow> Inr v | None \<Rightarrow> Inl KeyError)"
| "first_text _ = Inl TypeError"

text \<open>\<^verbatim>\<open>json.loads(v)\<close>: a value that is not a string is a \<^verbatim>\<open>TypeError\<close>.\<close>

fun loads_value :: "runtime \<Rightarrow> json \<Rightarrow> exn + json" where
  "loads_value lib (JStr s) = json_loads lib s"
| "loads_value lib _ = Inl TypeError"

section \<open>\<^verbatim>\<open>analyze_intent\<close>\<close>

definition intent_call :: "pilot \<Rightarrow> string \<Rightarrow> call" where
  "intent_call self user_input =
     \<lparr> modelId = model_id self, anthropic_version = ''bedrock-2023-05-31'', max_tokens = 1000,
       temperature = 2 / 10, system = Some (intent_system_prompt self),
       messages = [(''user'', user_input)] \<rparr>"

definition intent_default :: "string \<Rightarrow> json" where
  "intent_default understanding =
     JObj [(''needs_clarification'', JBool False), (''clarification_questions'', JList []),
           (''understanding'', JStr understanding)]"

text \<open>The body of the \<^verbatim>\<open>try\<close>, from the decoded response on.\<close>

definition analyze_intent_try :: "runtime \<Rightarrow> outcome \<Rightarrow> exn + json" where
  "analyze_intent_try lib out =
     (case out of
        Raises e \<Rightarrow> Inl e
      | Body response_body \<Rightarrow>
          (case response_content response_body of
             Inl e \<Rightarrow> Inl e
           | Inr content \<Rightarrow>
               (case has_text content of
                  Inl e \<Rightarrow> Inl e
                | Inr False \<Rightarrow> Inr (intent_default ''Unable to analyze intent'')
                | Inr True \<Rightarrow>
                    (case first_text content of
                       Inl e \<Rightarrow> Inl e
                     | Inr response_text \<Rightarrow>
                         (case loads_value lib response_text of
                            Inl JSONDecodeError \<Rightarrow>
                              Inr (intent_default ''Unable to parse understanding'')
                          | Inl e \<Rightarrow> Inl e
                          | Inr v \<Rightarrow> Inr v)))))"

text \<open>The result, with the one request sent.\<close>

definition analyze_intent :: "runtime \<Rightarrow> pilot \<Rightarrow> string \<Rightarrow> json \<times> call list" where
  "analyze_intent lib self user_input =
     (let c = intent_call self user_input in
      (case analyze_intent_try lib (bedrock self c) of
         Inr r \<Rightarrow> r
       | Inl e \<Rightarrow> intent_default (''Error during analysis: '' @ exn_text lib e),
       [c]))"

section \<open>\<^verbatim>\<open>generate_optimized_prompt\<close>\<close>

text \<open>\<open>None\<close> is the default argument; \<^verbatim>\<open>if clarifications:\<close> is false for it and for \<open>{}\<close>.\<close>

fun provided :: "(json \<times> string) list option \<Rightarrow> bool" where
  "provided None = False"
| "provided (Some d) = (d \<noteq> [])"

fun items :: "(json \<times> string) list option \<Rightarrow> (json \<times> string) list" where
  "items None = []"
| "items (Some d) = d"

definition request_text :: "runtime \<Rightarrow> string \<Rightarrow> (json \<times> string) list option \<Rightarrow> string" where
  \<open>request_text lib user_goal clarifications =
     ''User's original request: '' @ user_goal @ ''\<newline>\<newline>''
     @ (if provided clarifications
        then ''Additional clarifications:\<newline>''
             @ concat (map (\<lambda>(question, answer).
                 ''Question: '' @ format_value lib question @ ''\<newline>Answer: '' @ answer
                 @ ''\<newline>\<newline>'') (items clarifications))
        else [])
     @ ''\<newline>Create an optimized prompt based on this information. Ensure your response is in valid JSON format with 'optimized_prompt' and 'explanation' fields.''\<close>

definition optimization_call :: "runtime \<Rightarrow> pilot \<Rightarrow> string \<Rightarrow> (json \<times> string) list option \<Rightarrow> call" where
  "optimization_call lib self user_goal clarifications =
     \<lparr> modelId = model_id self, anthropic_version = ''bedrock-2023-05-31'', max_tokens = 4000,
       temperature = 5 / 10, system = Some (optimization_system_prompt self),
       messages = [(''user'', request_text lib user_goal clarifications)] \<rparr>"

text \<open>
  The interior of the first fence \<open>mark\<close>, stripped, when the two guards of the source
  hold; \<open>None\<close> when the program moves on to its next attempt. The source adds 7 and
  tests \<open>json_start > 7\<close> for the mark \<^verbatim>\<open>```json\<close>, and adds 3 and tests
  \<open>json_start > 3\<close> for the bare mark: in both the number is the length of the mark.
\<close>

definition fenced :: "string \<Rightarrow> string \<Rightarrow> string option" where
  "fenced mark response_text =
     (if str_in mark response_text then
        (let json_start = str_find response_text mark 0 + int (length mark);
             json_end = str_find response_text ''```'' (nat json_start)
         in if json_start > int (length mark) \<and> json_end > json_start
            then Some (str_strip (str_slice response_text json_start json_end))
            else None)
      else None)"

text \<open>The inner \<^verbatim>\<open>try\<close>: the labelled fence, then any fence, then the whole text.\<close>

definition parse_response :: "runtime \<Rightarrow> string \<Rightarrow> exn + json" where
  "parse_response lib response_text =
     (case fenced ''```json'' response_text of
        Some json_str \<Rightarrow> json_loads lib json_str
      | None \<Rightarrow>
          (case fenced ''```'' response_text of
             Some json_str \<Rightarrow> json_loads lib json_str
           | None \<Rightarrow> json_loads lib response_text))"

text \<open>
  The loop over the lines: the prompt collected so far, the flag \<open>capture\<close> and the
  explanation; \<^verbatim>\<open>break\<close> returns at once.
\<close>

fun capture_lines :: "string list \<Rightarrow> string \<Rightarrow> bool \<Rightarrow> string \<Rightarrow> string \<times> string" where
  "capture_lines [] optimized_prompt capture explanation = (optimized_prompt, explanation)"
| "capture_lines (line # lines) optimized_prompt capture explanation =
     (if str_in ''optimized prompt'' (str_lower line) \<and> \<not> capture
        then capture_lines lines optimized_prompt True explanation
      else if (str_in ''explanation'' (str_lower line) \<or> str_in ''why this works'' (str_lower line))
              \<and> capture
        then (optimized_prompt,
              if str_in '':'' line then str_strip (after_colon line) else str_strip line)
      else if capture
        then capture_lines lines (optimized_prompt @ line @ ''\<newline>'') capture explanation
      else capture_lines lines optimized_prompt capture explanation)"

definition optimization_payload :: "string \<Rightarrow> string \<Rightarrow> json" where
  "optimization_payload optimized_prompt explanation =
     JObj [(''optimized_prompt'', JStr optimized_prompt), (''explanation'', JStr explanation)]"

definition default_fallback :: json where
  \<open>default_fallback = optimization_payload
     ''I've created a prompt to help you make a Streamlit page for your resume. Please note that I'll need to know what sections to include and any styling preferences you have.\<newline>\<newline>Create a Streamlit web application that presents a professional resume with an attractive, responsive layout. The app should include standard resume sections (personal info, work experience, education, skills) with the option to expand sections for more details. Add a sidebar for navigation and include a feature to download the resume as a PDF.''
     ''This prompt specifies the core objective (Streamlit resume page) with essential resume sections and interactive features like expandable sections and PDF download capability.''\<close>

definition unexpected_format_fallback :: json where
  \<open>unexpected_format_fallback = optimization_payload
     ''Create a Streamlit web application that presents a professional resume. The application should be responsive, visually appealing, and organized in a clean layout. Include standard sections such as personal information, education, work experience, skills, and projects. Ensure the design is cohesive with a tasteful color scheme. The interface should be intuitive with clear section headings and proper spacing between elements. Add interactive elements where appropriate, such as expandable sections for detailed information. The entire resume should fit comfortably on a single page view where possible, with options to navigate between sections if necessary.''
     ''This prompt addresses your need for a Streamlit resume page with a simple, clean design and standard sections. (Note: A system error occurred while processing, but I've created this alternative prompt for you.)''\<close>

definition exception_fallback :: json where
  \<open>exception_fallback = optimization_payload
     ''Create a professional-looking application with a clean, modern interface that effectively presents all standard resume information. Structure the content logically with clear headings and proper spacing. Use a cohesive color scheme that remains professional while adding visual interest. Include appropriate interactive elements to enhance user experience without overcomplicating the interface.''
     ''I've created this prompt based on your request. (Note: A system error occurred, but this isn't your fault - I've generated an alternative prompt for you.)''\<close>

text \<open>The handler of \<^verbatim>\<open>json.JSONDecodeError\<close>: the line heuristic, else the default.\<close>

definition recover :: "string \<Rightarrow> json" where
  "recover response_text =
     (if str_in ''optimized prompt'' (str_lower response_text) then
        (case capture_lines (split_lines response_text) [] False
                ''Extracted from non-JSON response'' of
           (optimized_prompt, explanation) \<Rightarrow>
             if optimized_prompt \<noteq> []
             then optimization_payload (str_strip optimized_prompt) explanation
             else default_fallback)
      else default_fallback)"

text \<open>
  The inner \<^verbatim>\<open>try\<close> on a \<^verbatim>\<open>text\<close> value that is not a string: the fence tests are
  membership or key tests, \<^verbatim>\<open>find\<close> does not exist, and \<^verbatim>\<open>json.loads\<close> rejects the type.
\<close>

fun parse_non_string :: "json \<Rightarrow> exn" where
  "parse_non_string (JList xs) =
     (if List.member xs (JStr ''```json'') \<or> List.member xs (JStr ''```'')
      then AttributeError else TypeError)"
| "parse_non_string (JObj kvs) =
     (if map_of kvs ''```json'' \<noteq> None \<or> map_of kvs ''```'' \<noteq> None
      then AttributeError else TypeError)"
| "parse_non_string _ = TypeError"

fun optimization_of_text :: "runtime \<Rightarrow> json \<Rightarrow> exn + json" where
  "optimization_of_text lib (JStr response_text) =
     (case parse_response lib response_text of
        Inl JSONDecodeError \<Rightarrow> Inr (recover response_text)
      | Inl e \<Rightarrow> Inl e
      | Inr v \<Rightarrow> Inr v)"
| "optimization_of_text lib v = Inl (parse_non_string v)"

text \<open>The body of the outer \<^verbatim>\<open>try\<close>, from the decoded response on.\<close>

definition generate_optimized_prompt_try :: "runtime \<Rightarrow> outcome \<Rightarrow> exn + json" where
  "generate_optimized_prompt_try lib out =
     (case out of
        Raises e \<Rightarrow> Inl e
      | Body response_body \<Rightarrow>
          (case response_content response_body of
             Inl e \<Rightarrow> Inl e
           | Inr content \<Rightarrow>
               (case has_text content of
                  Inl e \<Rightarrow> Inl e
                | Inr False \<Rightarrow> Inr unexpected_format_fallback
                | Inr True \<Rightarrow>
                    (case first_text content of
                       Inl e \<Rightarrow> Inl e
                     | Inr response_text \<Rightarrow> optimization_of_text lib response_text))))"

definition generate_optimized_prompt ::
  "runtime \<Rightarrow> pilot \<Rightarrow> string \<Rightarrow> (json \<times> string) list option \<Rightarrow> json \<times> call list" where
  "generate_optimized_prompt lib self user_goal clarifications =
     (let c = optimization_call lib self user_goal clarifications in
      (case generate_optimized_prompt_try lib (bedrock self c) of
         Inr r \<Rightarrow> r
       | Inl e \<Rightarrow> exception_fallback,
       [c]))"

section \<open>\<^verbatim>\<open>execute_prompt\<close>\<close>

definition execute_call :: "pilot \<Rightarrow> string \<Rightarrow> call" where
  "execute_call self prompt =
     \<lparr> modelId = model_id self, anthropic_version = ''bedrock-2023-05-31'', max_tokens = 50000,
       temperature = 7 / 10, system = None, messages = [(''user'', prompt)] \<rparr>"

definition execute_prompt_try :: "outcome \<Rightarrow> exn + json" where
  "execute_prompt_try out =
     (case out of
        Raises e \<Rightarrow> Inl e
      | Body response_body \<Rightarrow>
          (case response_content response_body of
             Inl e \<Rightarrow> Inl e
           | Inr content \<Rightarrow>
               (case has_text content of
                  Inl e \<Rightarrow> Inl e
                | Inr False \<Rightarrow> Inr JNull
                | Inr True \<Rightarrow> first_text content)))"

text \<open>\<open>JNull\<close> is Python's \<^verbatim>\<open>None\<close>.\<close>

definition execute_prompt :: "pilot \<Rightarrow> string \<Rightarrow> json \<times> call list" where
  "execute_prompt self prompt =
     (let c = execute_call self prompt in
      (case execute_prompt_try (bedrock self c) of Inr r \<Rightarrow> r | Inl e \<Rightarrow> JNull, [c]))"

section \<open>\<^verbatim>\<open>process_input\<close>\<close>

text \<open>The message around an optimization result; \<^verbatim>\<open>get\<close> fails on anything but a dict.\<close>

definition optimized_message :: "runtime \<Rightarrow> json \<Rightarrow> exn + string" where
  \<open>optimized_message lib optimization_result =
     (case dict_get optimization_result ''optimized_prompt'' (JStr ''Error generating prompt'') of
        Inl e \<Rightarrow> Inl e
      | Inr p \<Rightarrow>
          (case dict_get optimization_result ''explanation'' (JStr ''No explanation available'') of
             Inl e \<Rightarrow> Inl e
           | Inr x \<Rightarrow>
               Inr (''Here's your optimized prompt:\<newline>\<newline>```\<newline>'' @ format_value lib p
                    @ ''\<newline>```\<newline>\<newline>'' @ ''**Explanation**: '' @ format_value lib x)))\<close>

definition questions_message :: "runtime \<Rightarrow> json list \<Rightarrow> string" where
  "questions_message lib qs =
     ''To optimize your prompt, I need a bit more information:\<newline>\<newline>''
     @ join_lines (map (\<lambda>q. ''- '' @ format_value lib q) qs)"

text \<open>
  The result is the triple the method returns, or the exception that leaves it, together
  with the requests sent on the way.
\<close>

definition process_input ::
  "runtime \<Rightarrow> pilot \<Rightarrow> string \<Rightarrow> (json \<times> string) list option
     \<Rightarrow> (exn + string \<times> json \<times> bool) \<times> call list" where
  "process_input lib self user_input clarifications =
     (if \<not> provided clarifications then
        (case analyze_intent lib self user_input of
           (intent_analysis, sent) \<Rightarrow>
             (case dict_get intent_analysis ''needs_clarification'' (JBool False) of
                Inl e \<Rightarrow> (Inl e, sent)
              | Inr needs \<Rightarrow>
                  if truthy needs then
                    (case dict_get intent_analysis ''clarification_questions'' (JList []) of
                       Inl e \<Rightarrow> (Inl e, sent)
                     | Inr questions \<Rightarrow>
                         (case iterate questions of
                            Inl e \<Rightarrow> (Inl e, sent)
                          | Inr qs \<Rightarrow>
                              (Inr (questions_message lib qs, intent_analysis, True), sent)))
                  else
                    (case generate_optimized_prompt lib self user_input None of
                       (optimization_result, sent') \<Rightarrow>
                         (case optimized_message lib optimization_result of
                            Inl e \<Rightarrow> (Inl e, sent @ sent')
                          | Inr text \<Rightarrow>
                              (Inr (text, intent_analysis, False), sent @ sent')))))
      else
        (case generate_optimized_prompt lib self user_input clarifications of
           (optimization_result, sent) \<Rightarrow>
             (case optimized_message lib optimization_result of
                Inl e \<Rightarrow> (Inl e, sent)
              | Inr text \<Rightarrow> (Inr (text, JObj [], False), sent))))"

section \<open>The chat page: \<^verbatim>\<open>process_user_message\<close>\<close>

text \<open>The fields of \<^verbatim>\<open>st.session_state\<close> apart from the pilot object.\<close>

record session =
  chat :: "(string \<times> string) list"
  awaiting_clarification :: bool
  original_request :: string
  intent_analysis :: json
  clarification_responses :: "(json \<times> string) list"
  last_optimized_prompt :: string
  show_execute_button :: bool

text \<open>\<^verbatim>\<open>initialize_session_state\<close> on an empty session; \<open>chat\<close> is the list \<^verbatim>\<open>messages\<close>.\<close>

definition initial_session :: session where
  "initial_session =
     \<lparr> chat = [], awaiting_clarification = False, original_request = [],
       intent_analysis = JObj [], clarification_responses = [],
       last_optimized_prompt = [], show_execute_button = False \<rparr>"

text \<open>The warning sign U+26A0 U+FE0F and a space.\<close>

definition warning_marker :: string where
  "warning_marker = [CHR 0xE2, CHR 0x9A, CHR 0xA0, CHR 0xEF, CHR 0xB8, CHR 0x8F, CHR 0x20]"

text \<open>The statement \<^verbatim>\<open>clarification_responses[questions[0]] = user_message\<close> under its guard.\<close>

definition store_answer :: "session \<Rightarrow> json \<Rightarrow> string \<Rightarrow> exn + session" where
  "store_answer st questions user_message =
     (if truthy questions then
        (case first_item questions of
           Inl e \<Rightarrow> Inl e
         | Inr q \<Rightarrow>
             if hashable q
             then Inr (st\<lparr>clarification_responses :=
                           dict_set (clarification_responses st) q user_message\<rparr>)
             else Inl TypeError)
      else Inr st)"

text \<open>Lines 88 to 94: the prompt is kept for the execute button.\<close>

definition keep_prompt :: "session \<Rightarrow> bool \<Rightarrow> string \<Rightarrow> session" where
  "keep_prompt st needs_clarification response =
     (if \<not> needs_clarification \<and> str_in ''```'' response then
        (let prompt_start = str_find response ''```'' 0 + 3;
             prompt_end = str_find response ''```'' (nat prompt_start)
         in if prompt_start > 3 \<and> prompt_end > prompt_start
            then st\<lparr>last_optimized_prompt := str_strip (str_slice response prompt_start prompt_end),
                    show_execute_button := True\<rparr>
            else st)
      else st)"

text \<open>Lines 96 to 99.\<close>

definition mark_error :: "string \<Rightarrow> string" where
  \<open>mark_error response =
     (if str_in ''system error occurred'' (str_lower response)
         \<or> str_in ''isn't your fault'' (str_lower response)
      then warning_marker @ response else response)\<close>

text \<open>
  One user turn. The result is the exception that ended the turn, if any, the session
  as the turn left it, and the requests sent.
\<close>

definition process_user_message ::
  "runtime \<Rightarrow> pilot \<Rightarrow> session \<Rightarrow> string \<Rightarrow> exn option \<times> session \<times> call list" where
  "process_user_message lib self st0 user_message =
     (let st1 = st0\<lparr>chat := chat st0 @ [(''user'', user_message)]\<rparr>;
          st = (if \<not> awaiting_clarification st1
                then st1\<lparr>original_request := user_message, clarification_responses := []\<rparr>
                else st1)
      in if awaiting_clarification st then
           (case dict_get (intent_analysis st) ''clarification_questions'' (JList []) of
              Inl e \<Rightarrow> (Some e, st, [])
            | Inr questions \<Rightarrow>
                (case store_answer st questions user_message of
                   Inl e \<Rightarrow> (Some e, st, [])
                 | Inr st' \<Rightarrow>
                     (case process_input lib self (original_request st')
                             (Some (clarification_responses st')) of
                        (Inl e, sent) \<Rightarrow> (Some e, st', sent)
                      | (Inr (response, _, needs_clarification), sent) \<Rightarrow>
                          (None,
                           st'\<lparr>awaiting_clarification := False,
                               chat := chat st' @ [(''assistant'', response)]\<rparr>,
                           sent))))
         else
           (case process_input lib self user_message None of
              (Inl e, sent) \<Rightarrow> (Some e, st, sent)
            | (Inr (response, analysis, needs_clarification), sent) \<Rightarrow>
                (let st' = keep_prompt
                             (st\<lparr>intent_analysis := analysis,
                                 awaiting_clarification := needs_clarification\<rparr>)
                             needs_clarification response
                 in (None, st'\<lparr>chat := chat st' @ [(''assistant'', mark_error response)]\<rparr>,
                     sent))))"

section \<open>Sample services for running the program\<close>

text \<open>
  A service reply that carries one text block, as the messages API returns it.
\<close>

definition text_reply :: "string \<Rightarrow> outcome" where
  "text_reply t =
     Body (JObj [(''role'', JStr ''assistant''),
                 (''content'', JList [JObj [(''type'', JStr ''text''), (''text'', JStr t)]])])"

text \<open>
  A pilot whose service answers by the kind of request: one outcome for the intent
  request, one for the optimization request, one for a request with no system prompt.
\<close>

definition scripted_pilot :: "outcome \<Rightarrow> outcome \<Rightarrow> outcome \<Rightarrow> pilot" where
  "scripted_pilot analysis synthesis execution =
     \<lparr> bedrock = (\<lambda>c. if system c = Some ''INTENT'' then analysis
                       else if system c = Some ''OPTIMIZE'' then synthesis
                       else execution),
       model_id = ''us.anthropic.claude-3-7-sonnet-20250219-v1:0'',
       intent_system_prompt = ''INTENT'',
       optimization_system_prompt = ''OPTIMIZE'' \<rparr>"

definition poem_analysis_text :: string where
  \<open>poem_analysis_text =
     ''{"needs_clarification": true, "clarification_questions": ["About what topic?"], "understanding": "A poem is wanted."}''\<close>

definition poem_analysis :: json where
  "poem_analysis =
     JObj [(''needs_clarification'', JBool True),
           (''clarification_questions'', JList [JStr ''About what topic?'']),
           (''understanding'', JStr ''A poem is wanted.'')]"

definition poem_result_text :: string where
  \<open>poem_result_text =
     ''{"optimized_prompt": "Write a poem about autumn.", "explanation": "Names the topic."}''\<close>

definition poem_result :: json where
  "poem_result = optimization_payload ''Write a poem about autumn.'' ''Names the topic.''"

definition no_questions_text :: string where
  \<open>no_questions_text = ''{"needs_clarification": true, "clarification_questions": []}''\<close>

definition no_questions :: json where
  "no_questions =
     JObj [(''needs_clarification'', JBool True), (''clarification_questions'', JList [])]"

definition quoting_result_text :: string where
  \<open>quoting_result_text =
     ''{"optimized_prompt": "Answer inside ```json 1 ``` only.", "explanation": "Fixes the format."}''\<close>

definition quoting_result :: json where
  "quoting_result = optimization_payload ''Answer inside ```json 1 ``` only.'' ''Fixes the format.''"

text \<open>
  A decoder that agrees with \<^verbatim>\<open>json.loads\<close> on the texts listed and rejects every other
  text; the examples below call it only on the listed texts and on texts that are not
  JSON.
\<close>

definition sample_loads :: "string \<Rightarrow> exn + json" where
  "sample_loads s =
     (if s = ''{}'' then Inr (JObj [])
      else if s = ''[]'' then Inr (JList [])
      else if s = ''1'' then Inr (JInt 1)
      else if s = poem_analysis_text then Inr poem_analysis
      else if s = poem_result_text then Inr poem_result
      else if s = no_questions_text then Inr no_questions
      else if s = quoting_result_text then Inr quoting_result
      else Inl JSONDecodeError)"

text \<open>
  \<open>value_text\<close> and \<open>exn_text\<close> of the sample runtime are exact on the values given
  and empty elsewhere; the examples do not print other values.
\<close>

definition sample_runtime :: runtime where
  "sample_runtime =
     \<lparr> json_loads = sample_loads,
       value_text = (\<lambda>v. if v = JNull then ''None'' else if v = JBool True then ''True''
                          else if v = JBool False then ''False'' else []),
       exn_text = (\<lambda>e. case e of OtherException tag \<Rightarrow> tag | _ \<Rightarrow> []) \<rparr>"

text \<open>A service that answers every request with the text \<open>t\<close>.\<close>

definition replying_pilot :: "string \<Rightarrow> pilot" where
  "replying_pilot t = scripted_pilot (text_reply t) (text_reply t) (text_reply t)"

text \<open>A service that fails on every request.\<close>

definition failing_pilot :: pilot where
  "failing_pilot =
     scripted_pilot (Raises (OtherException ''timeout'')) (Raises (OtherException ''timeout''))
       (Raises (OtherException ''timeout''))"

text \<open>
  A service for the poem scenario: it asks one question, then returns a prompt; a
  request with no system prompt gets a poem's first line.
\<close>

definition poem_pilot :: pilot where
  "poem_pilot =
     scripted_pilot (text_reply poem_analysis_text) (text_reply poem_result_text)
       (text_reply ''Leaves turn to amber'')"

text \<open>
  The poem service with the optimization request failing, and a service whose intent
  analysis asks for clarification without giving a question.
\<close>

definition synthesis_down_pilot :: pilot where
  "synthesis_down_pilot =
     scripted_pilot (text_reply poem_analysis_text) (Raises (OtherException ''timeout''))
       (Raises (OtherException ''timeout''))"


text \<open>The poem service with a synthesis reply that is a JSON list.\<close>

definition list_result_pilot :: pilot where
  "list_result_pilot =
     scripted_pilot (text_reply poem_analysis_text) (text_reply ''[]'')
       (Raises (OtherException ''timeout''))"

text \<open>
  The session after the request \<open>Write a poem\<close> was answered with the question \<open>q\<close>
  read from the analysis \<open>a\<close>.
\<close>

definition asked_session :: "json \<Rightarrow> string \<Rightarrow> session" where
  "asked_session a q =
     \<lparr> chat = [(''user'', ''Write a poem''), (''assistant'', q)],
       awaiting_clarification = True, original_request = ''Write a poem'',
       intent_analysis = a, clarification_responses = [],
       last_optimized_prompt = [], show_execute_button = False \<rparr>"

text \<open>The message \<open>process_input\<close> composes from the fallback of the outer handler.\<close>

definition failure_message :: string where
  "failure_message =
     (case optimized_message sample_runtime exception_fallback of Inr m \<Rightarrow> m | Inl e \<Rightarrow> [])"

section \<open>Shapes of responses and results\<close>

text \<open>
  The value the three methods read as \<^verbatim>\<open>content[0]['text']\<close>, when the response
  reaches that line: the call returned, the body is a dict, its content is a non-empty
  list and the first block is a dict with a \<^verbatim>\<open>text\<close> key.
\<close>

definition reply_text :: "outcome \<Rightarrow> json option" where
  "reply_text out =
     (case out of
        Raises e \<Rightarrow> None
      | Body response_body \<Rightarrow>
          (case response_content response_body of
             Inl e \<Rightarrow> None
           | Inr content \<Rightarrow>
               (case has_text content of
                  Inr True \<Rightarrow> (case first_text content of Inr v \<Rightarrow> Some v | Inl e \<Rightarrow> None)
                | _ \<Rightarrow> None)))"

text \<open>
  The invariant the specification gives for an intent analysis: a dict whose three
  fields are defined, a boolean, a list and a string.
\<close>

definition complete_analysis :: "json \<Rightarrow> bool" where
  "complete_analysis r =
     (case r of
        JObj kvs \<Rightarrow>
          (case (map_of kvs ''needs_clarification'', map_of kvs ''clarification_questions'',
                 map_of kvs ''understanding'') of
             (Some (JBool b), Some (JList qs), Some (JStr s)) \<Rightarrow> True
           | _ \<Rightarrow> False)
      | _ \<Rightarrow> False)"

text \<open>
  The invariant the specification gives for an optimization result: a dict with both
  fields present, each a string.
\<close>

definition has_both_fields :: "json \<Rightarrow> bool" where
  "has_both_fields r =
     (case r of
        JObj kvs \<Rightarrow>
          (case (map_of kvs ''optimized_prompt'', map_of kvs ''explanation'') of
             (Some (JStr p), Some (JStr x)) \<Rightarrow> True
           | _ \<Rightarrow> False)
      | _ \<Rightarrow> False)"

section \<open>Searching a text\<close>



lemma str_in_left: "str_in (a @ b) s \<Longrightarrow> str_in a s"
  by (induction s) (auto dest: append_prefixD)




lemma fenced_absent: "\<not> str_in mark text \<Longrightarrow> fenced mark text = None"
  by (simp add: fenced_def)


section \<open>Fenced payloads\<close>




section \<open>Intent analysis\<close>

lemma complete_intent_default: "complete_analysis (intent_default s)"
  by (simp add: complete_analysis_def intent_default_def)

lemma has_both_fields_payload: "has_both_fields (optimization_payload p x)"
  by (simp add: has_both_fields_def optimization_payload_def)

lemma has_both_fields_recover: "has_both_fields (recover t)"
  by (simp add: recover_def default_fallback_def has_both_fields_payload split: prod.splits)

lemma analyze_intent_try_text:
  "reply_text out = Some (JStr t) \<Longrightarrow>
   analyze_intent_try lib out =
     (case json_loads lib t of
        Inl JSONDecodeError \<Rightarrow> Inr (intent_default ''Unable to parse understanding'')
      | Inl e \<Rightarrow> Inl e
      | Inr v \<Rightarrow> Inr v)"
  by (auto simp: reply_text_def analyze_intent_try_def
      split: outcome.splits sum.splits bool.splits)

lemma analyze_intent_try_cases:
  "(\<exists>e. analyze_intent_try lib out = Inl e)
   \<or> (\<exists>s. analyze_intent_try lib out = Inr (intent_default s))
   \<or> (\<exists>t v. reply_text out = Some (JStr t) \<and> json_loads lib t = Inr v
         \<and> analyze_intent_try lib out = Inr v)"
proof (cases "reply_text out")
  case None
  then show ?thesis
    by (auto simp: reply_text_def analyze_intent_try_def
        split: outcome.splits sum.splits bool.splits)
next
  case (Some x)
  show ?thesis
  proof (cases x)
    case (JStr t)
    with Some have "reply_text out = Some (JStr t)" by simp
    from analyze_intent_try_text [OF this, of lib] this show ?thesis
      by (auto split: sum.splits exn.splits)
  qed (use Some in \<open>auto simp: reply_text_def analyze_intent_try_def
        split: outcome.splits sum.splits bool.splits\<close>)
qed

text \<open>
  Claim C5, as amended. \<open>analyze_intent\<close> is total: every exception raised inside
  it ends in the outer handler, and exactly one request, the intent request, is sent.
  When the response carries a text that the decoder accepts, the decoded payload is
  returned unchanged, with no default put in for a missing field. In every other case
  the result is one of the three default dicts, which has all three fields: \<open>False\<close>,
  the empty list and a placeholder string.
\<close>

theorem analyze_intent_payload_or_default:
  "snd (analyze_intent lib self u) = [intent_call self u]
   \<and> (reply_text (bedrock self (intent_call self u)) = Some (JStr t) \<and> json_loads lib t = Inr v
        \<longrightarrow> fst (analyze_intent lib self u) = v)
   \<and> ((\<forall>t v. reply_text (bedrock self (intent_call self u)) = Some (JStr t)
              \<longrightarrow> json_loads lib t \<noteq> Inr v)
        \<longrightarrow> (\<exists>s. fst (analyze_intent lib self u) = intent_default s)
            \<and> complete_analysis (fst (analyze_intent lib self u)))"
proof (intro conjI impI)
  show "snd (analyze_intent lib self u) = [intent_call self u]"
    by (simp add: analyze_intent_def Let_def)
next
  assume "reply_text (bedrock self (intent_call self u)) = Some (JStr t) \<and> json_loads lib t = Inr v"
  then show "fst (analyze_intent lib self u) = v"
    by (simp add: analyze_intent_def Let_def analyze_intent_try_text)
next
  assume none: "\<forall>t v. reply_text (bedrock self (intent_call self u)) = Some (JStr t)
              \<longrightarrow> json_loads lib t \<noteq> Inr v"
  from analyze_intent_try_cases [of lib "bedrock self (intent_call self u)"] none
  show "\<exists>s. fst (analyze_intent lib self u) = intent_default s"
    by (auto simp: analyze_intent_def Let_def)
  then show "complete_analysis (fst (analyze_intent lib self u))"
    by (auto simp: complete_intent_default)
qed

text \<open>
  The theorem on the poem service, whose payload is returned as decoded, and on the
  failing service, where the default is returned.
\<close>

theorem analyze_intent_payload_or_default_witness:
  "fst (analyze_intent sample_runtime poem_pilot ''Write a poem'') = poem_analysis
   \<and> complete_analysis (fst (analyze_intent sample_runtime failing_pilot ''Write a poem''))"
proof -
  have reply: "reply_text (bedrock poem_pilot (intent_call poem_pilot ''Write a poem''))
                = Some (JStr poem_analysis_text)"
    by code_simp
  have valid: "json_loads sample_runtime poem_analysis_text = Inr poem_analysis"
    by code_simp
  have none: "reply_text (bedrock failing_pilot (intent_call failing_pilot ''Write a poem'')) = None"
    by code_simp
  from analyze_intent_payload_or_default
         [of sample_runtime poem_pilot "''Write a poem''" poem_analysis_text poem_analysis]
       reply valid
  have "fst (analyze_intent sample_runtime poem_pilot ''Write a poem'') = poem_analysis"
    by blast
  moreover from analyze_intent_payload_or_default
         [of sample_runtime failing_pilot "''Write a poem''"] none
  have "complete_analysis (fst (analyze_intent sample_runtime failing_pilot ''Write a poem''))"
    by simp
  ultimately show ?thesis by simp
qed

text \<open>
  Claim C5 as stated fails on the success path: for the response text \<open>{}\<close> the
  method returns the empty dict, in which none of the three fields is defined.
\<close>

theorem analyze_intent_empty_payload_counterexample:
  "fst (analyze_intent sample_runtime (replying_pilot ''{}'') ''Write a poem'') = JObj []
   \<and> \<not> complete_analysis (JObj [])"
  by code_simp

section \<open>Prompt synthesis\<close>

lemma optimization_of_text_str:
  "optimization_of_text lib (JStr t) =
     (case parse_response lib t of
        Inl JSONDecodeError \<Rightarrow> Inr (recover t) | Inl e \<Rightarrow> Inl e | Inr v \<Rightarrow> Inr v)"
  by simp

lemma generate_try_text:
  "reply_text out = Some x \<Longrightarrow> generate_optimized_prompt_try lib out = optimization_of_text lib x"
  by (auto simp: reply_text_def generate_optimized_prompt_try_def
      split: outcome.splits sum.splits bool.splits)

lemma generate_try_no_text:
  "reply_text out = None \<Longrightarrow>
   (\<exists>e. generate_optimized_prompt_try lib out = Inl e)
   \<or> generate_optimized_prompt_try lib out = Inr unexpected_format_fallback"
  by (auto simp: reply_text_def generate_optimized_prompt_try_def
      split: outcome.splits sum.splits bool.splits)

lemma optimization_of_text_non_string:
  "(\<forall>t. x \<noteq> JStr t) \<Longrightarrow> \<exists>e. optimization_of_text lib x = Inl e"
  by (cases x) auto

lemma generate_try_cases:
  "(\<exists>e. generate_optimized_prompt_try lib out = Inl e)
   \<or> (\<exists>r. generate_optimized_prompt_try lib out = Inr r \<and> has_both_fields r)
   \<or> (\<exists>t v. reply_text out = Some (JStr t) \<and> parse_response lib t = Inr v
         \<and> generate_optimized_prompt_try lib out = Inr v)"
proof (cases "reply_text out")
  case None
  from generate_try_no_text [OF this, of lib] show ?thesis
    by (auto simp: unexpected_format_fallback_def has_both_fields_payload)
next
  case (Some x)
  show ?thesis
  proof (cases "\<exists>t. x = JStr t")
    case True
    then obtain t where "x = JStr t" by auto
    with Some have reply: "reply_text out = Some (JStr t)" by simp
    show ?thesis
      using generate_try_text [OF reply, of lib] reply
      by (auto simp: has_both_fields_recover split: sum.splits exn.splits)
  next
    case False
    then have "\<exists>e. optimization_of_text lib x = Inl e"
      by (intro optimization_of_text_non_string) auto
    with generate_try_text [OF Some, of lib] show ?thesis by auto
  qed
qed

lemma parse_response_all_fail:
  assumes "json_loads lib t = Inl JSONDecodeError"
    and "\<forall>s. fenced ''```json'' t = Some s \<longrightarrow> json_loads lib s = Inl JSONDecodeError"
    and "\<forall>s. fenced ''```'' t = Some s \<longrightarrow> json_loads lib s = Inl JSONDecodeError"
  shows "parse_response lib t = Inl JSONDecodeError"
  using assms by (auto simp: parse_response_def split: option.splits)

text \<open>
  Claim C6, as amended. \<open>generate_optimized_prompt\<close> is total and sends exactly the
  optimization request. When the response carries a text on which one of the parse
  attempts succeeds, the decoded payload is returned unchanged, whatever value it is.
  In every other case the result has both fields, each a string. In particular, when
  the whole text and each fence interior the method tries are rejected by the decoder
  and the line heuristic captures nothing, the result is the fixed default payload
  about a resume page.
\<close>

theorem generate_payload_or_fallback:
  "snd (generate_optimized_prompt lib self u c) = [optimization_call lib self u c]
   \<and> (reply_text (bedrock self (optimization_call lib self u c)) = Some (JStr t)
        \<and> parse_response lib t = Inr v
        \<longrightarrow> fst (generate_optimized_prompt lib self u c) = v)
   \<and> ((\<forall>t v. reply_text (bedrock self (optimization_call lib self u c)) = Some (JStr t)
              \<longrightarrow> parse_response lib t \<noteq> Inr v)
        \<longrightarrow> has_both_fields (fst (generate_optimized_prompt lib self u c)))
   \<and> (reply_text (bedrock self (optimization_call lib self u c)) = Some (JStr t)
        \<and> json_loads lib t = Inl JSONDecodeError
        \<and> (\<forall>s. fenced ''```json'' t = Some s \<longrightarrow> json_loads lib s = Inl JSONDecodeError)
        \<and> (\<forall>s. fenced ''```'' t = Some s \<longrightarrow> json_loads lib s = Inl JSONDecodeError)
        \<and> (\<not> str_in ''optimized prompt'' (str_lower t)
             \<or> fst (capture_lines (split_lines t) [] False ''Extracted from non-JSON response'') = [])
        \<longrightarrow> fst (generate_optimized_prompt lib self u c) = default_fallback)"
proof (intro conjI impI)
  show "snd (generate_optimized_prompt lib self u c) = [optimization_call lib self u c]"
    by (simp add: generate_optimized_prompt_def Let_def)
next
  assume "reply_text (bedrock self (optimization_call lib self u c)) = Some (JStr t)
        \<and> parse_response lib t = Inr v"
  then show "fst (generate_optimized_prompt lib self u c) = v"
    by (simp add: generate_optimized_prompt_def Let_def generate_try_text)
next
  assume none: "\<forall>t v. reply_text (bedrock self (optimization_call lib self u c)) = Some (JStr t)
              \<longrightarrow> parse_response lib t \<noteq> Inr v"
  from generate_try_cases [of lib "bedrock self (optimization_call lib self u c)"] none
  show "has_both_fields (fst (generate_optimized_prompt lib self u c))"
    by (auto simp: generate_optimized_prompt_def Let_def exception_fallback_def
        has_both_fields_payload)
next
  assume all: "reply_text (bedrock self (optimization_call lib self u c)) = Some (JStr t)
        \<and> json_loads lib t = Inl JSONDecodeError
        \<and> (\<forall>s. fenced ''```json'' t = Some s \<longrightarrow> json_loads lib s = Inl JSONDecodeError)
        \<and> (\<forall>s. fenced ''```'' t = Some s \<longrightarrow> json_loads lib s = Inl JSONDecodeError)
        \<and> (\<not> str_in ''optimized prompt'' (str_lower t)
             \<or> fst (capture_lines (split_lines t) [] False ''Extracted from non-JSON response'') = [])"
  then have "parse_response lib t = Inl JSONDecodeError"
    by (intro parse_response_all_fail) auto
  moreover from all have "recover t = default_fallback"
    by (auto simp: recover_def split: prod.splits)
  ultimately show "fst (generate_optimized_prompt lib self u c) = default_fallback"
    using all by (simp add: generate_optimized_prompt_def Let_def generate_try_text)
qed

text \<open>
  The theorem on the poem service (the payload is returned), on the failing service
  (a fallback with both fields) and on a service that answers in prose (the default).
\<close>

theorem generate_payload_or_fallback_witness:
  "fst (generate_optimized_prompt sample_runtime poem_pilot ''Write a poem'' None) = poem_result
   \<and> has_both_fields (fst (generate_optimized_prompt sample_runtime failing_pilot ''Write a poem'' None))
   \<and> fst (generate_optimized_prompt sample_runtime (replying_pilot ''I cannot help.'') ''Write a poem'' None)
       = default_fallback"
proof -
  have reply: "reply_text (bedrock poem_pilot
                 (optimization_call sample_runtime poem_pilot ''Write a poem'' None))
                = Some (JStr poem_result_text)"
    by code_simp
  have valid: "parse_response sample_runtime poem_result_text = Inr poem_result"
    by code_simp
  have none: "reply_text (bedrock failing_pilot
                 (optimization_call sample_runtime failing_pilot ''Write a poem'' None)) = None"
    by code_simp
  have refusal: "reply_text (bedrock (replying_pilot ''I cannot help.'')
                 (optimization_call sample_runtime (replying_pilot ''I cannot help.'') ''Write a poem'' None))
                = Some (JStr ''I cannot help.'')"
    by code_simp
  have verbatim: "json_loads sample_runtime ''I cannot help.'' = Inl JSONDecodeError"
    by code_simp
  have labelled: "fenced ''```json'' ''I cannot help.'' = None"
    by code_simp
  have plain: "fenced ''```'' ''I cannot help.'' = None"
    by code_simp
  have marker: "\<not> str_in ''optimized prompt'' (str_lower ''I cannot help.'')"
    by code_simp
  from generate_payload_or_fallback
         [of sample_runtime poem_pilot "''Write a poem''" None poem_result_text poem_result]
       reply valid
  have "fst (generate_optimized_prompt sample_runtime poem_pilot ''Write a poem'' None) = poem_result"
    by blast
  moreover from generate_payload_or_fallback
         [of sample_runtime failing_pilot "''Write a poem''" None] none
  have "has_both_fields (fst (generate_optimized_prompt sample_runtime failing_pilot ''Write a poem'' None))"
    by simp
  moreover from generate_payload_or_fallback
         [of sample_runtime "replying_pilot ''I cannot help.''" "''Write a poem''" None "''I cannot help.''"]
       refusal verbatim labelled plain marker
  have "fst (generate_optimized_prompt sample_runtime (replying_pilot ''I cannot help.'') ''Write a poem'' None)
       = default_fallback"
    by simp
  ultimately show ?thesis by simp
qed

text \<open>
  Claim C6 as stated fails: for the response text \<open>{}\<close> the method returns the empty
  dict, which has neither field.
\<close>

theorem generate_empty_payload_counterexample:
  "fst (generate_optimized_prompt sample_runtime (replying_pilot ''{}'') ''Write a poem'' None) = JObj []
   \<and> \<not> has_both_fields (JObj [])"
  by code_simp

text \<open>
  Claim C3, as amended. A response text that the decoder accepts as it stands is
  returned as decoded when it contains no triple backtick. The whole text is the last
  attempt, not the first: a labelled fence that passes the guards decides the result,
  then a bare fence, and only when neither is there is the whole text decoded.
\<close>

theorem verbatim_payload_after_fences:
  "(\<not> str_in ''```'' t \<and> json_loads lib t = Inr v \<longrightarrow> optimization_of_text lib (JStr t) = Inr v)
   \<and> (fenced ''```json'' t = Some s \<longrightarrow> parse_response lib t = json_loads lib s)
   \<and> (fenced ''```json'' t = None \<and> fenced ''```'' t = Some s
        \<longrightarrow> parse_response lib t = json_loads lib s)
   \<and> (fenced ''```json'' t = None \<and> fenced ''```'' t = None
        \<longrightarrow> parse_response lib t = json_loads lib t)"
proof (intro conjI impI)
  assume plain: "\<not> str_in ''```'' t \<and> json_loads lib t = Inr v"
  then have "\<not> str_in (''```'' @ ''json'') t"
    using str_in_left by blast
  then have "fenced ''```json'' t = None"
    by (intro fenced_absent) simp
  moreover from plain have "fenced ''```'' t = None"
    by (intro fenced_absent) simp
  ultimately show "optimization_of_text lib (JStr t) = Inr v"
    using plain by (simp add: parse_response_def)
qed (simp_all add: parse_response_def)

text \<open>
  The theorem on the poem result, which holds no backtick, and on a text with a
  labelled fence, where the fence interior is what gets decoded.
\<close>

theorem verbatim_payload_after_fences_witness:
  "optimization_of_text sample_runtime (JStr poem_result_text) = Inr poem_result
   \<and> parse_response sample_runtime quoting_result_text = json_loads sample_runtime ''1''"
proof -
  have plain: "\<not> str_in ''```'' poem_result_text"
    by code_simp
  have valid: "json_loads sample_runtime poem_result_text = Inr poem_result"
    by code_simp
  have labelled: "fenced ''```json'' quoting_result_text = Some ''1''"
    by code_simp
  from verbatim_payload_after_fences [of poem_result_text sample_runtime poem_result] plain valid
  have "optimization_of_text sample_runtime (JStr poem_result_text) = Inr poem_result"
    by blast
  moreover from verbatim_payload_after_fences [of quoting_result_text sample_runtime _ "''1''"] labelled
  have "parse_response sample_runtime quoting_result_text = json_loads sample_runtime ''1''"
    by blast
  ultimately show ?thesis by simp
qed

text \<open>
  Claim C3 as stated fails. The text below is a valid payload as it stands and one of
  its strings quotes a labelled fence; the method decodes the fence interior \<open>1\<close> and
  returns the number 1 instead of the payload.
\<close>

theorem verbatim_payload_with_fence_counterexample:
  "json_loads sample_runtime quoting_result_text = Inr quoting_result
   \<and> optimization_of_text sample_runtime (JStr quoting_result_text) = Inr (JInt 1)
   \<and> JInt 1 \<noteq> quoting_result"
  by code_simp

section \<open>Executing a prompt\<close>

lemma execute_try_text:
  "reply_text out = Some v \<Longrightarrow> execute_prompt_try out = Inr v"
  by (auto simp: reply_text_def execute_prompt_try_def
      split: outcome.splits sum.splits bool.splits)

lemma execute_try_no_text:
  "reply_text out = None \<Longrightarrow>
   (\<exists>e. execute_prompt_try out = Inl e) \<or> execute_prompt_try out = Inr JNull"
  by (auto simp: reply_text_def execute_prompt_try_def
      split: outcome.splits sum.splits bool.splits)

lemma execute_prompt_unfold:
  "execute_prompt self prompt =
     (case execute_prompt_try (bedrock self (execute_call self prompt)) of
        Inr r \<Rightarrow> r | Inl e \<Rightarrow> JNull,
      [execute_call self prompt])"
  by (simp add: execute_prompt_def Let_def)

text \<open>
  Claim C9. For every prompt, the empty one included, \<open>execute_prompt\<close> sends one
  request whose only message is the prompt as user content and which has no system
  prompt. It returns the text of the response when the response carries one, and
  \<open>None\<close> otherwise: when the call, the read or the decoding of the body raised, and
  when the content is missing or malformed. No exception leaves the method.
\<close>

theorem execute_prompt_text_or_none:
  "snd (execute_prompt self prompt) = [execute_call self prompt]
   \<and> system (execute_call self prompt) = None
   \<and> messages (execute_call self prompt) = [(''user'', prompt)]
   \<and> (reply_text (bedrock self (execute_call self prompt)) = Some v
        \<longrightarrow> fst (execute_prompt self prompt) = v)
   \<and> (reply_text (bedrock self (execute_call self prompt)) = None
        \<longrightarrow> fst (execute_prompt self prompt) = JNull)
   \<and> (bedrock self (execute_call self prompt) = Raises e
        \<longrightarrow> fst (execute_prompt self prompt) = JNull)"
proof (intro conjI impI)
  show "snd (execute_prompt self prompt) = [execute_call self prompt]"
    by (simp add: execute_prompt_unfold)
next
  show "system (execute_call self prompt) = None"
    by (simp add: execute_call_def)
next
  show "messages (execute_call self prompt) = [(''user'', prompt)]"
    by (simp add: execute_call_def)
next
  assume "reply_text (bedrock self (execute_call self prompt)) = Some v"
  from execute_try_text [OF this] show "fst (execute_prompt self prompt) = v"
    by (simp add: execute_prompt_unfold)
next
  assume "reply_text (bedrock self (execute_call self prompt)) = None"
  from execute_try_no_text [OF this] show "fst (execute_prompt self prompt) = JNull"
    by (auto simp: execute_prompt_unfold)
next
  assume "bedrock self (execute_call self prompt) = Raises e"
  then have "execute_prompt_try (bedrock self (execute_call self prompt)) = Inl e"
    by (simp add: execute_prompt_try_def)
  then show "fst (execute_prompt self prompt) = JNull"
    by (simp add: execute_prompt_unfold)
qed

text \<open>
  The theorem with the empty prompt on a service that answers and on one that fails,
  and with a service whose answer is the empty text.
\<close>

theorem execute_prompt_text_or_none_witness:
  "fst (execute_prompt poem_pilot []) = JStr ''Leaves turn to amber''
   \<and> fst (execute_prompt failing_pilot []) = JNull
   \<and> fst (execute_prompt (replying_pilot []) ''Write a poem'') = JStr []"
proof -
  have a: "reply_text (bedrock poem_pilot (execute_call poem_pilot []))
             = Some (JStr ''Leaves turn to amber'')"
    by code_simp
  have b: "bedrock failing_pilot (execute_call failing_pilot [])
             = Raises (OtherException ''timeout'')"
    by code_simp
  have c: "reply_text (bedrock (replying_pilot []) (execute_call (replying_pilot []) ''Write a poem''))
             = Some (JStr [])"
    by code_simp
  from execute_prompt_text_or_none [of poem_pilot "[]" "JStr ''Leaves turn to amber''"] a
  have "fst (execute_prompt poem_pilot []) = JStr ''Leaves turn to amber''"
    by blast
  moreover from execute_prompt_text_or_none [of failing_pilot "[]" _ "OtherException ''timeout''"] b
  have "fst (execute_prompt failing_pilot []) = JNull"
    by blast
  moreover from execute_prompt_text_or_none [of "replying_pilot []" "''Write a poem''" "JStr []"] c
  have "fst (execute_prompt (replying_pilot []) ''Write a poem'') = JStr []"
    by blast
  ultimately show ?thesis by simp
qed

section \<open>One call of \<^verbatim>\<open>process_input\<close>\<close>

lemma process_input_absent_first_call:
  "\<exists>rest. snd (process_input lib self u None) = intent_call self u # rest"
  by (auto simp: process_input_def analyze_intent_def generate_optimized_prompt_def Let_def
      split: sum.splits prod.splits)

text \<open>
  Claim C10. \<open>process_input\<close> with the empty dict of clarifications returns what it
  returns with no clarifications, and the first request it sends is the intent request:
  the empty dict starts a fresh intent analysis.
\<close>

theorem empty_clarifications_as_absent:
  "process_input lib self u (Some []) = process_input lib self u None
   \<and> hd (snd (process_input lib self u (Some []))) = intent_call self u"
proof -
  have same: "process_input lib self u (Some []) = process_input lib self u None"
    by (simp add: process_input_def)
  moreover from process_input_absent_first_call [of lib self u]
  have "hd (snd (process_input lib self u None)) = intent_call self u"
    by auto
  ultimately show ?thesis by simp
qed

text \<open>
  The theorem on the poem service: with the empty dict the method asks the
  clarification question again.
\<close>

theorem empty_clarifications_as_absent_witness:
  "process_input sample_runtime poem_pilot ''Write a poem'' (Some [])
     = (Inr (''To optimize your prompt, I need a bit more information:\<newline>\<newline>- About what topic?'',
             poem_analysis, True),
        [intent_call poem_pilot ''Write a poem''])"
proof -
  have "process_input sample_runtime poem_pilot ''Write a poem'' None
     = (Inr (''To optimize your prompt, I need a bit more information:\<newline>\<newline>- About what topic?'',
             poem_analysis, True),
        [intent_call poem_pilot ''Write a poem''])"
    by code_simp
  with empty_clarifications_as_absent [of sample_runtime poem_pilot "''Write a poem''"]
  show ?thesis by simp
qed

text \<open>
  Claim C4 at a failing input. The intent response is the text \<open>[]\<close>, a valid JSON
  list. \<open>analyze_intent\<close> returns the list, and \<open>process_input\<close> ends with the
  \<^verbatim>\<open>AttributeError\<close> of \<^verbatim>\<open>intent_analysis.get\<close> after the one intent request.
\<close>

theorem process_input_list_payload_raises:
  "json_loads sample_runtime ''[]'' = Inr (JList [])
   \<and> process_input sample_runtime (replying_pilot ''[]'') ''Write a poem'' None
       = (Inl AttributeError, [intent_call (replying_pilot ''[]'') ''Write a poem''])"
  by code_simp

section \<open>Turns of the chat page\<close>

lemma optimized_message_dict:
  "\<exists>m. optimized_message lib (JObj r) = Inr m \<and> prefix ''Here's your optimized prompt:'' m"
  by (simp add: optimized_message_def)

lemma generate_calls:
  "snd (generate_optimized_prompt lib self u c) = [optimization_call lib self u c]"
  by (simp add: generate_optimized_prompt_def Let_def)

lemma analyze_calls: "snd (analyze_intent lib self u) = [intent_call self u]"
  by (simp add: analyze_intent_def Let_def)

lemma process_input_questions:
  assumes "fst (analyze_intent lib self u) = JObj ia"
    and "map_of ia ''needs_clarification'' = Some n" and "truthy n"
    and "map_of ia ''clarification_questions'' = Some (JList qs)"
  shows "process_input lib self u None
           = (Inr (questions_message lib qs, JObj ia, True), [intent_call self u])"
proof -
  have "analyze_intent lib self u = (JObj ia, [intent_call self u])"
    using assms(1) analyze_calls [of lib self u] by (simp add: prod_eq_iff)
  then show ?thesis
    using assms(2-) by (simp add: process_input_def)
qed

lemma process_input_clarified:
  assumes "d \<noteq> []"
    and "fst (generate_optimized_prompt lib self u (Some d)) = JObj r"
    and "optimized_message lib (JObj r) = Inr m"
  shows "process_input lib self u (Some d)
           = (Inr (m, JObj [], False), [optimization_call lib self u (Some d)])"
proof -
  have "generate_optimized_prompt lib self u (Some d)
          = (JObj r, [optimization_call lib self u (Some d)])"
    using assms(2) generate_calls [of lib self u "Some d"] by (simp add: prod_eq_iff)
  then show ?thesis
    using assms(1,3) by (simp add: process_input_def)
qed


lemma poem_question_unmarked:
  "mark_error (questions_message lib [JStr ''About what topic?''])
     = ''To optimize your prompt, I need a bit more information:\<newline>\<newline>- About what topic?''"
proof -
  have "questions_message lib [JStr ''About what topic?'']
     = ''To optimize your prompt, I need a bit more information:\<newline>\<newline>- About what topic?''"
    by (simp add: questions_message_def)
  moreover have "mark_error ''To optimize your prompt, I need a bit more information:\<newline>\<newline>- About what topic?''
     = ''To optimize your prompt, I need a bit more information:\<newline>\<newline>- About what topic?''"
    by code_simp
  ultimately show ?thesis by simp
qed

text \<open>
  The poem scenario when the synthesis stage returns a result dict. Start from a fresh
  session with the goal \<open>Write a poem\<close> and let the intent stage report that
  clarification is needed with the single question \<open>About what topic?\<close>. Turn 1
  sends the intent request only, replies with the line
  \<open>To optimize your prompt, I need a bit more information:\<close> followed by that
  question as a bullet, and leaves the session awaiting clarification. Turn 2 with the
  answer \<open>autumn\<close> records the answer under the question, sends the optimization
  request built from the original goal and that map, leaves the session idle, and
  replies with a message that begins \<open>Here's your optimized prompt:\<close>.
\<close>

lemma poem_scenario:
  assumes intent: "fst (analyze_intent lib self ''Write a poem'') = JObj ia"
    and needs: "map_of ia ''needs_clarification'' = Some (JBool True)"
    and question: "map_of ia ''clarification_questions'' = Some (JList [JStr ''About what topic?''])"
    and synthesis: "fst (generate_optimized_prompt lib self ''Write a poem''
                      (Some [(JStr ''About what topic?'', ''autumn'')])) = JObj r"
  shows "\<exists>s1 m.
     process_user_message lib self initial_session ''Write a poem''
       = (None, s1, [intent_call self ''Write a poem''])
     \<and> awaiting_clarification s1
     \<and> last (chat s1) = (''assistant'',
          ''To optimize your prompt, I need a bit more information:\<newline>\<newline>- About what topic?'')
     \<and> process_user_message lib self s1 ''autumn''
       = (None,
          s1\<lparr>chat := chat s1 @ [(''user'', ''autumn''), (''assistant'', m)],
             clarification_responses := [(JStr ''About what topic?'', ''autumn'')],
             awaiting_clarification := False\<rparr>,
          [optimization_call lib self ''Write a poem''
             (Some [(JStr ''About what topic?'', ''autumn'')])])
     \<and> prefix ''Here's your optimized prompt:'' m"
proof -
  let ?q = "''To optimize your prompt, I need a bit more information:\<newline>\<newline>- About what topic?''"
  let ?s1 = "initial_session\<lparr>chat := [(''user'', ''Write a poem''), (''assistant'', ?q)],
               original_request := ''Write a poem'', intent_analysis := JObj ia,
               awaiting_clarification := True\<rparr>"
  let ?d = "[(JStr ''About what topic?'', ''autumn'')]"
  from optimized_message_dict [of lib r] obtain m
    where m: "optimized_message lib (JObj r) = Inr m"
      and header: "prefix ''Here's your optimized prompt:'' m"
    by blast
  have first: "process_input lib self ''Write a poem'' None
      = (Inr (questions_message lib [JStr ''About what topic?''], JObj ia, True),
         [intent_call self ''Write a poem''])"
    using process_input_questions [OF intent needs _ question] by simp
  have turn1: "process_user_message lib self initial_session ''Write a poem''
       = (None, ?s1, [intent_call self ''Write a poem''])"
    by (simp add: process_user_message_def Let_def first keep_prompt_def
        poem_question_unmarked initial_session_def)
  have second: "process_input lib self ''Write a poem'' (Some ?d)
      = (Inr (m, JObj [], False), [optimization_call lib self ''Write a poem'' (Some ?d)])"
    using process_input_clarified [OF _ synthesis m] by simp
  have turn2: "process_user_message lib self ?s1 ''autumn''
       = (None,
          ?s1\<lparr>chat := chat ?s1 @ [(''user'', ''autumn''), (''assistant'', m)],
              clarification_responses := ?d, awaiting_clarification := False\<rparr>,
          [optimization_call lib self ''Write a poem'' (Some ?d)])"
    using question
    by (simp add: process_user_message_def Let_def store_answer_def second initial_session_def)
  have "awaiting_clarification ?s1" and "last (chat ?s1) = (''assistant'', ?q)"
    by simp_all
  with turn1 turn2 header show ?thesis
    by blast
qed

text \<open>The scenario on the poem service.\<close>

lemma poem_scenario_on_poem_service:
  "\<exists>s1 m.
     process_user_message sample_runtime poem_pilot initial_session ''Write a poem''
       = (None, s1, [intent_call poem_pilot ''Write a poem''])
     \<and> awaiting_clarification s1
     \<and> last (chat s1) = (''assistant'',
          ''To optimize your prompt, I need a bit more information:\<newline>\<newline>- About what topic?'')
     \<and> process_user_message sample_runtime poem_pilot s1 ''autumn''
       = (None,
          s1\<lparr>chat := chat s1 @ [(''user'', ''autumn''), (''assistant'', m)],
             clarification_responses := [(JStr ''About what topic?'', ''autumn'')],
             awaiting_clarification := False\<rparr>,
          [optimization_call sample_runtime poem_pilot ''Write a poem''
             (Some [(JStr ''About what topic?'', ''autumn'')])])
     \<and> prefix ''Here's your optimized prompt:'' m"
proof -
  have intent: "fst (analyze_intent sample_runtime poem_pilot ''Write a poem'')
      = JObj [(''needs_clarification'', JBool True),
              (''clarification_questions'', JList [JStr ''About what topic?'']),
              (''understanding'', JStr ''A poem is wanted.'')]"
    by code_simp
  have synthesis: "fst (generate_optimized_prompt sample_runtime poem_pilot ''Write a poem''
                      (Some [(JStr ''About what topic?'', ''autumn'')]))
      = JObj [(''optimized_prompt'', JStr ''Write a poem about autumn.''),
              (''explanation'', JStr ''Names the topic.'')]"
    by code_simp
  show ?thesis
    by (rule poem_scenario [OF intent _ _ synthesis]) simp_all
qed


text \<open>
  Claim C7 at a failing input. The intent stage reports what the claim says and the
  synthesis reply is the text \<open>[]\<close>, a valid JSON list. Turn 1 goes as claimed. On
  turn 2 the answer is recorded and the optimization request is sent, but synthesis
  returns the list, \<open>process_input\<close> ends with the \<^verbatim>\<open>AttributeError\<close> of
  \<^verbatim>\<open>optimization_result.get\<close>, no reply is added and the session still awaits
  clarification.
\<close>

theorem poem_scenario_list_result:
  "json_loads sample_runtime ''[]'' = Inr (JList [])
   \<and> process_user_message sample_runtime list_result_pilot initial_session ''Write a poem''
     = (None,
        asked_session poem_analysis
          ''To optimize your prompt, I need a bit more information:\<newline>\<newline>- About what topic?'',
        [intent_call list_result_pilot ''Write a poem''])
   \<and> fst (generate_optimized_prompt sample_runtime list_result_pilot ''Write a poem''
           (Some [(JStr ''About what topic?'', ''autumn'')])) = JList []
   \<and> process_user_message sample_runtime list_result_pilot
        (asked_session poem_analysis
          ''To optimize your prompt, I need a bit more information:\<newline>\<newline>- About what topic?'')
        ''autumn''
     = (Some AttributeError,
        \<lparr> chat = [(''user'', ''Write a poem''),
                  (''assistant'',
                   ''To optimize your prompt, I need a bit more information:\<newline>\<newline>- About what topic?''),
                  (''user'', ''autumn'')],
          awaiting_clarification = True, original_request = ''Write a poem'',
          intent_analysis = poem_analysis,
          clarification_responses = [(JStr ''About what topic?'', ''autumn'')],
          last_optimized_prompt = [], show_execute_button = False \<rparr>,
        [optimization_call sample_runtime list_result_pilot ''Write a poem''
           (Some [(JStr ''About what topic?'', ''autumn'')])])"
  by code_simp




text \<open>
  Claim C8 at a failing input. The session has asked \<open>About what topic?\<close> and the
  optimization request fails. Synthesis returns the fallback of its outer handler, whose
  explanation says that a system error occurred; the reply of the clarification turn is
  the composed message without the warning marker in front. The test of lines 96 to 99
  would mark this message, and an idle turn on a failing service does show it marked.
\<close>

theorem clarification_turn_unmarked_failure:
  "process_user_message sample_runtime synthesis_down_pilot initial_session ''Write a poem''
     = (None,
        asked_session poem_analysis
          ''To optimize your prompt, I need a bit more information:\<newline>\<newline>- About what topic?'',
        [intent_call synthesis_down_pilot ''Write a poem''])
   \<and> process_user_message sample_runtime synthesis_down_pilot
        (asked_session poem_analysis
          ''To optimize your prompt, I need a bit more information:\<newline>\<newline>- About what topic?'')
        ''autumn''
     = (None,
        \<lparr> chat = [(''user'', ''Write a poem''),
                  (''assistant'',
                   ''To optimize your prompt, I need a bit more information:\<newline>\<newline>- About what topic?''),
                  (''user'', ''autumn''),
                  (''assistant'', failure_message)],
          awaiting_clarification = False, original_request = ''Write a poem'',
          intent_analysis = poem_analysis,
          clarification_responses = [(JStr ''About what topic?'', ''autumn'')],
          last_optimized_prompt = [], show_execute_button = False \<rparr>,
        [optimization_call sample_runtime synthesis_down_pilot ''Write a poem''
           (Some [(JStr ''About what topic?'', ''autumn'')])])
   \<and> fst (generate_optimized_prompt sample_runtime synthesis_down_pilot ''Write a poem''
           (Some [(JStr ''About what topic?'', ''autumn'')])) = exception_fallback
   \<and> optimized_message sample_runtime exception_fallback = Inr failure_message
   \<and> str_in ''system error occurred'' (str_lower failure_message)
   \<and> \<not> prefix warning_marker failure_message
   \<and> last (chat (fst (snd (process_user_message sample_runtime failing_pilot initial_session
                              ''Write a poem''))))
       = (''assistant'', warning_marker @ failure_message)"
  by code_simp

end
